theory Spec2Isabelle
  imports Complex_Main
begin

section \<open>Outcomes of a call\<close>

text \<open>
  The mesh queries of \<^verbatim>\<open>volumetric_mesh.h\<close> either return a value or print a
  diagnostic on \<^verbatim>\<open>std::cerr\<close> and leave through \<^verbatim>\<open>std::exit(EXIT_FAILURE)\<close>.
  Raw array accesses of the source are unchecked: a read outside the array is undefined
  behaviour, which is kept apart from the checked exit. An array allocated with a
  negative length is the third way a call can fail to return.
\<close>

datatype failure =
    Fatal string
  | OutOfBounds
  | BadArrayLength

definition is_fatal :: "failure + 'a \<Rightarrow> bool" where
  "is_fatal r = (case r of Inl (Fatal msg) \<Rightarrow> True | _ \<Rightarrow> False)"

text \<open>
  C++ \<^verbatim>\<open>int\<close> is the 32-bit two's complement integer. A value of type \<^verbatim>\<open>int\<close> is
  an integer in \<open>int_range\<close>; the arguments of the functions below are such values.
  A product or sum that the code forms in \<^verbatim>\<open>int\<close> is the mathematical result brought
  back into the range modulo \<open>2^32\<close>, as the compiled code does.
\<close>

definition int_range :: "int \<Rightarrow> bool" where
  "int_range x = (- 2147483648 \<le> x \<and> x \<le> 2147483647)"

definition wrap_int :: "int \<Rightarrow> int" where
  "wrap_int x = (x + 2147483648) mod 4294967296 - 2147483648"

text \<open>\<^verbatim>\<open>a[i]\<close> on a raw array of known extent.\<close>

definition array_read :: "'a list \<Rightarrow> int \<Rightarrow> failure + 'a" where
  "array_read a i = (if 0 \<le> i \<and> i < int (length a) then Inr (a ! nat i) else Inl OutOfBounds)"

text \<open>
  \<^verbatim>\<open>dst = new T[n]; memcpy(dst, src, n*sizeof(T));\<close> The copy reads \<open>n\<close> items of
  the caller's array \<open>src\<close>.
\<close>

definition new_copy :: "int \<Rightarrow> 'a list \<Rightarrow> failure + 'a list" where
  "new_copy n src =
     (if n < 0 then Inl BadArrayLength
      else if int (length src) < n then Inl OutOfBounds
      else Inr (take (nat n) src))"

section \<open>The volumetric mesh\<close>

text \<open>
  The data members of \<^verbatim>\<open>VolumetricMesh<Scalar,Dim>\<close>. A buffer is the list of its
  items; the null pointer of a default-constructed mesh is the empty buffer. The scalar
  type is the type parameter \<open>'s\<close>, the template argument \<^verbatim>\<open>Dim\<close> is passed to the
  functions that use it. Isabelle reserves the names that end in an underscore, so the
  members \<^verbatim>\<open>vert_num_\<close>, \<^verbatim>\<open>vertices_\<close>, ... are written \<open>vert_num'\<close>,
  \<open>vertices'\<close>, ...
\<close>

record 's VolumetricMesh =
  vert_num' :: int
  vertices' :: "'s list"
  ele_num' :: int
  elements' :: "int list"
  vert_per_ele' :: "int list"
  uniform_ele_type' :: bool

definition VolumetricMesh_default :: "'s VolumetricMesh" where
  "VolumetricMesh_default =
     \<lparr>vert_num' = 0, vertices' = [], ele_num' = 0, elements' = [],
      vert_per_ele' = [], uniform_ele_type' = False\<rparr>"

text \<open>
  \<^verbatim>\<open>for(int i = 0; i < n; ++i) acc += vert_per_ele_[i];\<close> starting from \<open>acc = 0\<close>:
  the loop of \<^verbatim>\<open>init\<close> (with \<open>n = ele_num'\<close>) and of \<^verbatim>\<open>eleVertPos\<close> (with
  \<open>n = ele_idx\<close>). The accumulator is an \<^verbatim>\<open>int\<close>.
\<close>

fun sum_counts :: "int list \<Rightarrow> nat \<Rightarrow> failure + int" where
  "sum_counts vpe 0 = Inr 0"
| "sum_counts vpe (Suc i) =
     (case sum_counts vpe i of
        Inl e \<Rightarrow> Inl e
      | Inr acc \<Rightarrow>
          (case array_read vpe (int i) of
             Inl e \<Rightarrow> Inl e
           | Inr c \<Rightarrow> Inr (wrap_int (acc + c))))"

definition init ::
  "nat \<Rightarrow> int \<Rightarrow> 's list \<Rightarrow> int \<Rightarrow> int list \<Rightarrow> int list \<Rightarrow> bool \<Rightarrow> failure + 's VolumetricMesh"
where
  "init Dim vert_num vertices ele_num elements vert_per_ele uniform_ele_type =
     (case new_copy (wrap_int (vert_num * int Dim)) vertices of
        Inl e \<Rightarrow> Inl e
      | Inr vs \<Rightarrow>
          (case (if uniform_ele_type
                 then (case array_read vert_per_ele 0 of
                         Inl e \<Rightarrow> Inl e
                       | Inr k \<Rightarrow> Inr ([k], wrap_int (ele_num * k)))
                 else (case new_copy ele_num vert_per_ele of
                         Inl e \<Rightarrow> Inl e
                       | Inr vpe \<Rightarrow>
                           (case sum_counts vpe (nat ele_num) of
                              Inl e \<Rightarrow> Inl e
                            | Inr n \<Rightarrow> Inr (vpe, n)))) of
             Inl e \<Rightarrow> Inl e
           | Inr (vpe, elements_total_num) \<Rightarrow>
               (case new_copy elements_total_num elements of
                  Inl e \<Rightarrow> Inl e
                | Inr es \<Rightarrow>
                    Inr \<lparr>vert_num' = vert_num, vertices' = vs, ele_num' = ele_num,
                         elements' = es, vert_per_ele' = vpe,
                         uniform_ele_type' = uniform_ele_type\<rparr>)))"

text \<open>The two public constructors: the first passes the address of its own parameter.\<close>

definition VolumetricMesh_uniform ::
  "nat \<Rightarrow> int \<Rightarrow> 's list \<Rightarrow> int \<Rightarrow> int list \<Rightarrow> int \<Rightarrow> failure + 's VolumetricMesh"
where
  "VolumetricMesh_uniform Dim vert_num vertices ele_num elements vert_per_ele =
     init Dim vert_num vertices ele_num elements [vert_per_ele] True"

definition VolumetricMesh_ragged ::
  "nat \<Rightarrow> int \<Rightarrow> 's list \<Rightarrow> int \<Rightarrow> int list \<Rightarrow> int list \<Rightarrow> failure + 's VolumetricMesh"
where
  "VolumetricMesh_ragged Dim vert_num vertices ele_num elements vert_per_ele_list =
     init Dim vert_num vertices ele_num elements vert_per_ele_list False"

definition vertNum :: "'s VolumetricMesh \<Rightarrow> int" where
  "vertNum m = vert_num' m"

definition eleNum :: "'s VolumetricMesh \<Rightarrow> int" where
  "eleNum m = ele_num' m"


definition eleVertNum :: "'s VolumetricMesh \<Rightarrow> int \<Rightarrow> failure + int" where
  "eleVertNum m ele_idx =
     (if uniform_ele_type' m then array_read (vert_per_ele' m) 0
      else array_read (vert_per_ele' m) ele_idx)"

text \<open>
  Modelled from the spec: the declaration of \<^verbatim>\<open>Vector<Scalar,Dim>\<close>, the type of a
  position, is not among the sources. The spec gives it ``exactly \<open>Dim\<close> scalar
  components, stored contiguously'': the list of its components.
\<close>

type_synonym 's Vector = "'s list"

text \<open>
  \<^verbatim>\<open>for(int i = 0; i < Dim; ++i) pos[i] = vertices_[Dim*vert_idx+i];\<close> The vector
  \<open>pos\<close> holds the components assigned so far; the second argument counts the
  iterations.
\<close>

fun vertPos_loop :: "nat \<Rightarrow> nat \<Rightarrow> 's list \<Rightarrow> int \<Rightarrow> failure + 's Vector" where
  "vertPos_loop Dim 0 vs vert_idx = Inr []"
| "vertPos_loop Dim (Suc i) vs vert_idx =
     (case vertPos_loop Dim i vs vert_idx of
        Inl e \<Rightarrow> Inl e
      | Inr pos \<Rightarrow>
          (case array_read vs (wrap_int (wrap_int (int Dim * vert_idx) + int i)) of
             Inl e \<Rightarrow> Inl e
           | Inr s \<Rightarrow> Inr (pos @ [s])))"

definition vertPos :: "nat \<Rightarrow> 's VolumetricMesh \<Rightarrow> int \<Rightarrow> failure + 's Vector" where
  "vertPos Dim m vert_idx =
     (if vert_idx < 0 \<or> vert_idx \<ge> vert_num' m
      then Inl (Fatal ''vertex index out of range!'')
      else vertPos_loop Dim Dim (vertices' m) vert_idx)"

text \<open>
  \<^verbatim>\<open>eleVertPos\<close> up to the point where \<open>ele_idx_start\<close> is known: the two range
  checks and the start of the element in the connectivity buffer.
\<close>

definition ele_idx_start :: "'s VolumetricMesh \<Rightarrow> int \<Rightarrow> int \<Rightarrow> failure + int" where
  "ele_idx_start m ele_idx vert_idx =
     (if ele_idx < 0 \<or> ele_idx \<ge> ele_num' m
      then Inl (Fatal ''element index out of range!'')
      else if uniform_ele_type' m
      then (case array_read (vert_per_ele' m) 0 of
              Inl e \<Rightarrow> Inl e
            | Inr k \<Rightarrow>
                if vert_idx < 0 \<or> vert_idx \<ge> k
                then Inl (Fatal ''vert_idx out of range'')
                else Inr (wrap_int (ele_idx * k)))
      else (case array_read (vert_per_ele' m) ele_idx of
              Inl e \<Rightarrow> Inl e
            | Inr c \<Rightarrow>
                if vert_idx < 0 \<or> vert_idx \<ge> c
                then Inl (Fatal ''vert_idx out of range'')
                else sum_counts (vert_per_ele' m) (nat ele_idx)))"

definition eleVertPos :: "nat \<Rightarrow> 's VolumetricMesh \<Rightarrow> int \<Rightarrow> int \<Rightarrow> failure + 's Vector" where
  "eleVertPos Dim m ele_idx vert_idx =
     (case ele_idx_start m ele_idx vert_idx of
        Inl e \<Rightarrow> Inl e
      | Inr start \<Rightarrow>
          (case array_read (elements' m) (wrap_int (start + vert_idx)) of
             Inl e \<Rightarrow> Inl e
           | Inr global_vert_idx \<Rightarrow> vertPos Dim m global_vert_idx))"

section \<open>Two-dimensional vectors\<close>

text \<open>
  The member functions of \<^verbatim>\<open>Vector2D<Scalar>\<close> in \<^verbatim>\<open>vector_2d.cpp\<close>. The class is
  instantiated for \<^verbatim>\<open>float\<close> and \<^verbatim>\<open>double\<close>. Their arithmetic rounds, so \<open>+\<close>,
  \<open>-\<close>, \<open>*\<close> and \<open>/\<close> are the operations of the scalar type \<open>'a\<close> with no law assumed
  about them. Two operations that the class takes from outside are parameters of the
  functions that use them: \<open>sqrt_s\<close> is \<^verbatim>\<open>sqrt\<close> of \<^verbatim>\<open><cmath>\<close>, and \<open>ne\<close> is the
  built-in comparison \<^verbatim>\<open>!=\<close> of the scalar type, which is not the inequality of
  values (a NaN is unequal to itself).
\<close>

text \<open>
  Modelled from the spec: the class declaration (\<^verbatim>\<open>vector_2d.h\<close>, with the member
  \<^verbatim>\<open>eigen_vector_2x_\<close> and the setting of \<^verbatim>\<open>PHYSIKA_USE_EIGEN_VECTOR\<close>) is not among
  the sources. The spec gives a vector ``exactly \<open>Dim\<close> scalar components, stored
  contiguously'', here two. The functions are read with the macro defined: the two
  coefficients are those of the Eigen column, and the constructor
  \<^verbatim>\<open>Vector2D(Scalar x, Scalar y)\<close> stores \<open>x\<close> and \<open>y\<close> in them.
\<close>

datatype 'a Vector2D = Vector2D 'a 'a

text \<open>\<^verbatim>\<open>Vector2D(Scalar x)\<close>\<close>

definition Vector2D_broadcast :: "'a \<Rightarrow> 'a Vector2D" where
  "Vector2D_broadcast x = Vector2D x x"

text \<open>
  \<^verbatim>\<open>operator[]\<close>, read and written. Eigen defines the coefficient access for the
  indices 0 and 1 only; the class itself uses no other.
\<close>

fun Vector2D_index :: "'a Vector2D \<Rightarrow> nat \<Rightarrow> 'a" where
  "Vector2D_index (Vector2D x y) idx = (if idx = 0 then x else if idx = 1 then y else undefined)"

fun Vector2D_store :: "'a Vector2D \<Rightarrow> nat \<Rightarrow> 'a \<Rightarrow> 'a Vector2D" where
  "Vector2D_store (Vector2D x y) idx s =
     (if idx = 0 then Vector2D s y else if idx = 1 then Vector2D x s else undefined)"

text \<open>\<^verbatim>\<open>operator=\<close>: \<^verbatim>\<open>for(int i = 0; i < 2; ++i) (*this)[i] = vec2[i];\<close>\<close>

definition Vector2D_assign :: "'a Vector2D \<Rightarrow> 'a Vector2D \<Rightarrow> 'a Vector2D" where
  "Vector2D_assign self vec2 =
     fold (\<lambda>i v. Vector2D_store v i (Vector2D_index vec2 i)) [0..<2] self"

text \<open>
  The copy constructor, \<^verbatim>\<open>*this = vec2\<close>. The object under construction holds
  indeterminate coefficients, the argument \<open>self\<close>.
\<close>

definition Vector2D_copy :: "'a Vector2D \<Rightarrow> 'a Vector2D \<Rightarrow> 'a Vector2D" where
  "Vector2D_copy self vec2 = Vector2D_assign self vec2"

text \<open>
  \<^verbatim>\<open>operator==\<close>:
  \<^verbatim>\<open>for(int i = 0; i < 2; ++i) if((*this)[i] != vec2[i]) return false; return true;\<close>
\<close>

fun Vector2D_equal_loop ::
  "('a \<Rightarrow> 'a \<Rightarrow> bool) \<Rightarrow> 'a Vector2D \<Rightarrow> 'a Vector2D \<Rightarrow> nat list \<Rightarrow> bool"
where
  "Vector2D_equal_loop ne self vec2 [] = True"
| "Vector2D_equal_loop ne self vec2 (i # is) =
     (if ne (Vector2D_index self i) (Vector2D_index vec2 i) then False
      else Vector2D_equal_loop ne self vec2 is)"

definition Vector2D_equal :: "('a \<Rightarrow> 'a \<Rightarrow> bool) \<Rightarrow> 'a Vector2D \<Rightarrow> 'a Vector2D \<Rightarrow> bool" where
  "Vector2D_equal ne self vec2 = Vector2D_equal_loop ne self vec2 [0..<2]"

text \<open>\<^verbatim>\<open>operator+\<close> fills \<^verbatim>\<open>Scalar result[2]\<close> and builds the sum from it.\<close>

definition Vector2D_plus :: "'a::plus Vector2D \<Rightarrow> 'a Vector2D \<Rightarrow> 'a Vector2D" where
  "Vector2D_plus self vec2 =
     (let result = map (\<lambda>i. Vector2D_index self i + Vector2D_index vec2 i) [0..<2]
      in Vector2D (result ! 0) (result ! 1))"

text \<open>Unary \<^verbatim>\<open>operator-\<close>\<close>

definition Vector2D_uminus :: "'a::uminus Vector2D \<Rightarrow> 'a Vector2D" where
  "Vector2D_uminus self = Vector2D (- Vector2D_index self 0) (- Vector2D_index self 1)"

definition Vector2D_norm :: "('a \<Rightarrow> 'a) \<Rightarrow> 'a::{plus,times} Vector2D \<Rightarrow> 'a" where
  "Vector2D_norm sqrt_s self =
     sqrt_s (Vector2D_index self 0 * Vector2D_index self 0 +
             Vector2D_index self 1 * Vector2D_index self 1)"

text \<open>
  \<^verbatim>\<open>normalize\<close>: the norm is taken once, before the loop; \<^verbatim>\<open>if(norm)\<close> converts
  the scalar to \<^verbatim>\<open>bool\<close>, that is \<^verbatim>\<open>norm != 0\<close>. The result is the object the
  returned reference points to.
\<close>

definition Vector2D_normalize ::
  "('a \<Rightarrow> 'a) \<Rightarrow> ('a \<Rightarrow> 'a \<Rightarrow> bool) \<Rightarrow> 'a::{zero,plus,times,inverse} Vector2D \<Rightarrow> 'a Vector2D"
where
  "Vector2D_normalize sqrt_s ne self =
     (let norm = Vector2D_norm sqrt_s self
      in if ne norm 0
         then fold (\<lambda>i v. Vector2D_store v i (Vector2D_index v i / norm)) [0..<2] self
         else self)"

definition Vector2D_cross :: "'a::{minus,times} Vector2D \<Rightarrow> 'a Vector2D \<Rightarrow> 'a" where
  "Vector2D_cross self vec2 =
     Vector2D_index self 0 * Vector2D_index vec2 1 - Vector2D_index self 1 * Vector2D_index vec2 0"

definition Vector2D_dot :: "'a::{plus,times} Vector2D \<Rightarrow> 'a Vector2D \<Rightarrow> 'a" where
  "Vector2D_dot self vec2 =
     Vector2D_index self 0 * Vector2D_index vec2 0 + Vector2D_index self 1 * Vector2D_index vec2 1"

text \<open>
  The values of an IEEE-754 format as the comparison \<^verbatim>\<open>!=\<close> of \<^verbatim>\<open>float\<close> and
  \<^verbatim>\<open>double\<close> tells them apart: the numbers (the two zeros compare equal and are one
  value here), the two infinities, and NaN, which compares unequal to every value and to
  itself.
\<close>

datatype ieee_value = Num real | PlusInf | MinusInf | NaN

definition ieee_ne :: "ieee_value \<Rightarrow> ieee_value \<Rightarrow> bool" where
  "ieee_ne a b = (a = NaN \<or> b = NaN \<or> a \<noteq> b)"

text \<open>
  Four values of every IEEE-754 format that addition and negation do not leave: zero, the
  two infinities and NaN. Their sums and negations are those of IEEE-754 arithmetic and
  none of them rounds: an infinity absorbs zero and itself, the two infinities add up to
  NaN, and NaN absorbs everything. They are compared as \<^verbatim>\<open>!=\<close> compares the values
  they stand for.
\<close>

datatype ieee_special = SZero | SPlusInf | SMinusInf | SNaN

definition ieee_of_special :: "ieee_special \<Rightarrow> ieee_value" where
  "ieee_of_special s =
     (case s of SZero \<Rightarrow> Num 0 | SPlusInf \<Rightarrow> PlusInf | SMinusInf \<Rightarrow> MinusInf | SNaN \<Rightarrow> NaN)"

definition special_ne :: "ieee_special \<Rightarrow> ieee_special \<Rightarrow> bool" where
  "special_ne a b = ieee_ne (ieee_of_special a) (ieee_of_special b)"

instantiation ieee_special :: "{zero, plus, uminus}"
begin

definition zero_ieee_special :: ieee_special where
  "zero_ieee_special = SZero"

definition plus_ieee_special :: "ieee_special \<Rightarrow> ieee_special \<Rightarrow> ieee_special" where
  "plus_ieee_special a b =
     (if a = SNaN \<or> b = SNaN then SNaN
      else if a = SZero then b
      else if b = SZero then a
      else if a = b then a
      else SNaN)"

definition uminus_ieee_special :: "ieee_special \<Rightarrow> ieee_special" where
  "uminus_ieee_special a =
     (case a of SZero \<Rightarrow> SZero | SPlusInf \<Rightarrow> SMinusInf | SMinusInf \<Rightarrow> SPlusInf | SNaN \<Rightarrow> SNaN)"

instance ..

end

section \<open>Example meshes\<close>

text \<open>
  The unit square in the plane, \<open>(0,0), (1,0), (0,1), (1,1)\<close>, once cut into the two
  triangles \<open>[0,1,2]\<close> and \<open>[1,3,2]\<close> (three vertices per element), once covered by the
  triangle \<open>[0,1,2]\<close> followed by the quadrilateral \<open>[1,3,2,0]\<close> (per-element counts
  \<open>[3,4]\<close>, seven connectivity entries).
\<close>

definition square_vertices :: "real list" where
  "square_vertices = [0, 0, 1, 0, 0, 1, 1, 1]"

definition two_triangles :: "int list" where
  "two_triangles = [0, 1, 2, 1, 3, 2]"

definition triangle_quad :: "int list" where
  "triangle_quad = [0, 1, 2, 1, 3, 2, 0]"

definition uniform_mesh :: "real VolumetricMesh" where
  "uniform_mesh =
     \<lparr>vert_num' = 4, vertices' = square_vertices, ele_num' = 2,
      elements' = two_triangles, vert_per_ele' = [3], uniform_ele_type' = True\<rparr>"

definition ragged_mesh :: "real VolumetricMesh" where
  "ragged_mesh =
     \<lparr>vert_num' = 4, vertices' = square_vertices, ele_num' = 2,
      elements' = triangle_quad, vert_per_ele' = [3, 4], uniform_ele_type' = False\<rparr>"


definition dangling_elements :: "int list" where
  "dangling_elements = [0, 1, 2, 1, 7, 2]"

definition dangling_mesh :: "real VolumetricMesh" where
  "dangling_mesh =
     \<lparr>vert_num' = 4, vertices' = square_vertices, ele_num' = 2,
      elements' = dangling_elements, vert_per_ele' = [3], uniform_ele_type' = True\<rparr>"

definition dangling_quad :: "int list" where
  "dangling_quad = [0, 1, 2, 1, 3, 2, 9]"

definition dangling_ragged_mesh :: "real VolumetricMesh" where
  "dangling_ragged_mesh =
     \<lparr>vert_num' = 4, vertices' = square_vertices, ele_num' = 2,
      elements' = dangling_quad, vert_per_ele' = [3, 4], uniform_ele_type' = False\<rparr>"

text \<open>
  Meshes on which the arithmetic of \<^verbatim>\<open>int\<close> or a negative count shows: the counts
  \<open>[3,-2]\<close>, whose sum is 1; three elements of 1431655766 vertices, whose product
  4294967298 is 2 in \<^verbatim>\<open>int\<close>, with a connectivity array of that many entries; and five
  counts whose first two add up to -2 in \<^verbatim>\<open>int\<close> and all five to 3.
\<close>

definition three_entries :: "int list" where
  "three_entries = [0, 1, 2]"

definition negative_count_mesh :: "real VolumetricMesh" where
  "negative_count_mesh =
     \<lparr>vert_num' = 4, vertices' = square_vertices, ele_num' = 2,
      elements' = [0], vert_per_ele' = [3, - 2], uniform_ele_type' = False\<rparr>"

definition long_elements :: "int list" where
  "long_elements = replicate 4294967298 0"

definition wrapped_product_mesh :: "real VolumetricMesh" where
  "wrapped_product_mesh =
     \<lparr>vert_num' = 4, vertices' = square_vertices, ele_num' = 3,
      elements' = [0, 0], vert_per_ele' = [1431655766], uniform_ele_type' = True\<rparr>"

definition wrapping_counts :: "int list" where
  "wrapping_counts = [2147483647, 2147483647, 3, - 2147483648, - 2147483646]"

definition wrapped_sum_mesh :: "real VolumetricMesh" where
  "wrapped_sum_mesh =
     \<lparr>vert_num' = 4, vertices' = square_vertices, ele_num' = 5,
      elements' = three_entries, vert_per_ele' = wrapping_counts, uniform_ele_type' = False\<rparr>"

section \<open>Arithmetic in \<^verbatim>\<open>int\<close>, arrays and loops\<close>

lemma wrap_int_id: "int_range x \<Longrightarrow> wrap_int x = x"
  by (simp add: int_range_def wrap_int_def)

lemma int_range_wrap_int: "int_range (wrap_int x)"
proof -
  have "0 \<le> (x + 2147483648) mod 4294967296" "(x + 2147483648) mod 4294967296 < 4294967296"
    by simp_all
  then show ?thesis unfolding int_range_def wrap_int_def by linarith
qed

lemma wrap_int_add_left: "wrap_int (wrap_int a + b) = wrap_int (a + b)"
proof -
  have "((a + 2147483648) mod 4294967296 + b) mod 4294967296 = (a + 2147483648 + b) mod 4294967296"
    by (rule mod_add_left_eq)
  then show ?thesis by (simp add: wrap_int_def algebra_simps)
qed

lemma int_range_between: "int_range a \<Longrightarrow> int_range b \<Longrightarrow> a \<le> x \<Longrightarrow> x \<le> b \<Longrightarrow> int_range x"
  by (simp add: int_range_def)

lemma array_read_Inr: "0 \<le> i \<Longrightarrow> i < int (length a) \<Longrightarrow> array_read a i = Inr (a ! nat i)"
  by (simp add: array_read_def)

lemma array_read_outside: "i < 0 \<or> int (length a) \<le> i \<Longrightarrow> array_read a i = Inl OutOfBounds"
  by (auto simp: array_read_def)

lemma new_copy_Inr:
  "new_copy n src = Inr dst \<longleftrightarrow> 0 \<le> n \<and> n \<le> int (length src) \<and> dst = take (nat n) src"
  by (auto simp: new_copy_def)

lemma sum_counts_take:
  "n \<le> length vpe \<Longrightarrow> sum_counts vpe n = Inr (wrap_int (sum_list (take n vpe)))"
proof (induction n)
  case 0
  show ?case by (simp add: wrap_int_def)
next
  case (Suc n)
  then have "n < length vpe" by simp
  moreover from Suc have "sum_counts vpe n = Inr (wrap_int (sum_list (take n vpe)))" by simp
  ultimately show ?case
    by (simp add: array_read_def take_Suc_conv_app_nth wrap_int_add_left)
qed

lemma vertPos_loop_take:
  assumes "Dim * v + i \<le> length vs" and "int (length vs) \<le> 2147483647"
  shows "vertPos_loop Dim i vs (int v) = Inr (take i (drop (Dim * v) vs))"
  using assms(1)
proof (induction i)
  case 0
  show ?case by simp
next
  case (Suc i)
  then have lt: "Dim * v + i < length vs" by simp
  with assms(2) have "int_range (int Dim * int v)" "int_range (int Dim * int v + int i)"
    unfolding int_range_def by (simp_all flip: of_nat_mult of_nat_add)
  then have idx: "wrap_int (wrap_int (int Dim * int v) + int i) = int (Dim * v + i)"
    by (simp add: wrap_int_id)
  from lt have rd: "array_read vs (wrap_int (wrap_int (int Dim * int v) + int i)) =
      Inr (vs ! (Dim * v + i))"
    unfolding idx array_read_def by (simp only: of_nat_less_iff of_nat_0_le_iff nat_int) simp
  from lt have "i < length (drop (Dim * v) vs)" by simp
  then have "take (Suc i) (drop (Dim * v) vs) = take i (drop (Dim * v) vs) @ [vs ! (Dim * v + i)]"
    by (simp add: take_Suc_conv_app_nth)
  with Suc rd show ?case by simp
qed

lemma is_fatal_simps:
  "is_fatal (Inl (Fatal msg))" "\<not> is_fatal (Inl OutOfBounds)"
  "\<not> is_fatal (Inl BadArrayLength)" "\<not> is_fatal (Inr x)"
  by (simp_all add: is_fatal_def)


section \<open>What construction leaves in the mesh\<close>

lemma init_members:
  assumes "init Dim vn V en E ks u = Inr m"
  shows "vert_num' m = vn" "ele_num' m = en" "uniform_ele_type' m = u"
    and "vertices' m = take (nat (wrap_int (vn * int Dim))) V"
    and "0 \<le> wrap_int (vn * int Dim)" "wrap_int (vn * int Dim) \<le> int (length V)"
    and "u \<Longrightarrow> \<exists>k. array_read ks 0 = Inr k \<and> vert_per_ele' m = [k]"
    and "\<not> u \<Longrightarrow> vert_per_ele' m = take (nat en) ks \<and> 0 \<le> en \<and> en \<le> int (length ks)"
  using assms
  by (auto simp: init_def new_copy_def split: sum.splits if_splits)

lemma init_uniform_Inr:
  "init Dim vn V en E [k] True = Inr m \<longleftrightarrow>
     0 \<le> wrap_int (vn * int Dim) \<and> wrap_int (vn * int Dim) \<le> int (length V) \<and>
     0 \<le> wrap_int (en * k) \<and> wrap_int (en * k) \<le> int (length E) \<and>
     m = \<lparr>vert_num' = vn, vertices' = take (nat (wrap_int (vn * int Dim))) V, ele_num' = en,
          elements' = take (nat (wrap_int (en * k))) E, vert_per_ele' = [k],
          uniform_ele_type' = True\<rparr>"
  by (auto simp: init_def new_copy_def array_read_def split: sum.splits)

lemma init_ragged_Inr:
  "init Dim vn V en E ks False = Inr m \<longleftrightarrow>
     0 \<le> wrap_int (vn * int Dim) \<and> wrap_int (vn * int Dim) \<le> int (length V) \<and>
     0 \<le> en \<and> en \<le> int (length ks) \<and>
     0 \<le> wrap_int (sum_list (take (nat en) ks)) \<and>
     wrap_int (sum_list (take (nat en) ks)) \<le> int (length E) \<and>
     m = \<lparr>vert_num' = vn, vertices' = take (nat (wrap_int (vn * int Dim))) V, ele_num' = en,
          elements' = take (nat (wrap_int (sum_list (take (nat en) ks)))) E,
          vert_per_ele' = take (nat en) ks, uniform_ele_type' = False\<rparr>"
proof (cases "0 \<le> en \<and> en \<le> int (length ks)")
  case True
  then have "nat en \<le> length ks" by linarith
  then have "nat en \<le> length (take (nat en) ks)" by simp
  then have "sum_counts (take (nat en) ks) (nat en) =
      Inr (wrap_int (sum_list (take (nat en) ks)))"
    using sum_counts_take [of "nat en" "take (nat en) ks"] by simp
  with True show ?thesis
    by (auto simp: init_def new_copy_def split: sum.splits)
next
  case False
  then show ?thesis
    by (auto simp: init_def new_copy_def split: sum.splits)
qed


section \<open>Queries on a constructed mesh\<close>

lemma vertex_block_bound:
  assumes "0 \<le> i" "i < vn"
  shows "Dim * nat i + Dim \<le> nat (vn * int Dim)"
proof -
  from assms have "Suc (nat i) \<le> nat vn" by linarith
  then have "Dim * Suc (nat i) \<le> Dim * nat vn" by (rule mult_le_mono2)
  moreover from assms have "nat (vn * int Dim) = Dim * nat vn"
    by (simp add: nat_mult_distrib mult.commute)
  ultimately show ?thesis by simp
qed

lemma vertPos_in_range:
  assumes "vertices' m = take (nat (vert_num' m * int Dim)) V"
    and "vert_num' m * int Dim \<le> int (length V)"
    and "int_range (vert_num' m * int Dim)"
    and "0 \<le> i" "i < vert_num' m"
  shows "vertPos Dim m i = Inr (take Dim (drop (Dim * nat i) V))"
proof -
  let ?N = "nat (vert_num' m * int Dim)"
  have blk: "Dim * nat i + Dim \<le> ?N"
    using assms(4,5) by (rule vertex_block_bound)
  from assms(2) have "?N \<le> length V" by linarith
  then have len: "length (take ?N V) = ?N" by simp
  with blk have le: "Dim * nat i + Dim \<le> length (take ?N V)" by simp
  from assms(3) have "int ?N \<le> 2147483647" by (simp add: int_range_def)
  with len have "int (length (take ?N V)) \<le> 2147483647" by simp
  with le have "vertPos_loop Dim Dim (take ?N V) (int (nat i)) =
      Inr (take Dim (drop (Dim * nat i) (take ?N V)))"
    by (rule vertPos_loop_take)
  moreover have "take Dim (drop (Dim * nat i) (take ?N V)) = take Dim (drop (Dim * nat i) V)"
  proof -
    from blk have "min Dim (?N - Dim * nat i) = Dim" by linarith
    then show ?thesis by (simp add: drop_take)
  qed
  ultimately show ?thesis
    using assms(1,4,5) by (simp add: vertPos_def)
qed

lemma vertex_block_nth:
  assumes "vert_num * int Dim \<le> int (length V)" "0 \<le> i" "i < vert_num"
  shows "length (take Dim (drop (Dim * nat i) V)) = Dim"
    and "j < Dim \<Longrightarrow> take Dim (drop (Dim * nat i) V) ! j = V ! (Dim * nat i + j)"
proof -
  have "Dim * nat i + Dim \<le> nat (vert_num * int Dim)"
    using assms(2,3) by (rule vertex_block_bound)
  moreover from assms(1) have "nat (vert_num * int Dim) \<le> length V" by linarith
  ultimately have le: "Dim * nat i + Dim \<le> length V" by linarith
  then show "length (take Dim (drop (Dim * nat i) V)) = Dim" by simp
  assume "j < Dim"
  with le show "take Dim (drop (Dim * nat i) V) ! j = V ! (Dim * nat i + j)" by simp
qed

lemma vertPos_built:
  assumes built: "init Dim vn V en E ks u = Inr m" and fits: "int_range (vn * int Dim)"
    and rng: "0 \<le> i" "i < vn"
  shows "vertPos Dim m i = Inr (take Dim (drop (Dim * nat i) V))"
proof -
  note mem = init_members [OF built]
  from fits have w: "wrap_int (vn * int Dim) = vn * int Dim" by (rule wrap_int_id)
  show ?thesis
    using mem(4,6) fits rng unfolding w
    by (intro vertPos_in_range) (simp_all add: mem(1))
qed

lemma uniform_slot_bound:
  fixes e l k en :: int
  assumes "0 \<le> e" "e < en" "0 \<le> l" "l < k"
  shows "0 \<le> e * k" and "e * k \<le> en * k" and "0 \<le> e * k + l" and "e * k + l < en * k"
proof -
  from assms have k: "0 \<le> k" by simp
  with assms show "0 \<le> e * k" "0 \<le> e * k + l" by simp_all
  from assms have "e + 1 \<le> en" by simp
  then have "(e + 1) * k \<le> en * k" using k by (rule mult_right_mono)
  moreover have "(e + 1) * k = e * k + k" by (simp add: algebra_simps)
  ultimately show "e * k + l < en * k" "e * k \<le> en * k" using assms(3,4) by linarith+
qed

lemma sum_list_take_mono:
  fixes xs :: "int list"
  assumes "\<forall>c\<in>set xs. 0 \<le> c" "a \<le> b"
  shows "sum_list (take a xs) \<le> sum_list (take b xs)"
proof -
  from assms(2) have "take b xs = take a xs @ take (b - a) (drop a xs)"
    using take_add [of a "b - a" xs] by simp
  moreover have "0 \<le> sum_list (take (b - a) (drop a xs))"
    using assms(1) by (auto intro!: sum_list_nonneg dest: in_set_takeD in_set_dropD)
  ultimately show ?thesis by simp
qed

lemma ragged_slot_bound:
  fixes ks :: "int list"
  assumes nonneg: "\<forall>c\<in>set ks. 0 \<le> c"
    and e: "e < length ks" and l: "0 \<le> l" "l < ks ! e"
  shows "0 \<le> sum_list (take e ks)" and "sum_list (take e ks) \<le> sum_list ks"
    and "0 \<le> sum_list (take e ks) + l" and "sum_list (take e ks) + l < sum_list ks"
proof -
  show pre: "0 \<le> sum_list (take e ks)"
    using nonneg by (auto intro!: sum_list_nonneg dest: in_set_takeD)
  with l show "0 \<le> sum_list (take e ks) + l" by simp
  from e have "sum_list (take (Suc e) ks) = sum_list (take e ks) + ks ! e"
    by (simp add: take_Suc_conv_app_nth)
  moreover have "sum_list (take (Suc e) ks) \<le> sum_list (take (length ks) ks)"
    using nonneg e by (intro sum_list_take_mono) auto
  ultimately show "sum_list (take e ks) + l < sum_list ks" "sum_list (take e ks) \<le> sum_list ks"
    using l by simp_all
qed

lemma ele_idx_start_uniform:
  assumes "uniform_ele_type' m" "vert_per_ele' m = [k]"
    and "0 \<le> e" "e < ele_num' m" "0 \<le> l" "l < k"
  shows "ele_idx_start m e l = Inr (wrap_int (e * k))"
  using assms by (simp add: ele_idx_start_def array_read_def)

lemma ele_idx_start_ragged:
  assumes "\<not> uniform_ele_type' m" "int (length (vert_per_ele' m)) = ele_num' m"
    and "0 \<le> e" "e < ele_num' m" "0 \<le> l" "l < vert_per_ele' m ! nat e"
  shows "ele_idx_start m e l = Inr (wrap_int (sum_list (take (nat e) (vert_per_ele' m))))"
proof -
  from assms(2-4) have "nat e \<le> length (vert_per_ele' m)" by linarith
  then have "sum_counts (vert_per_ele' m) (nat e) =
      Inr (wrap_int (sum_list (take (nat e) (vert_per_ele' m))))"
    by (rule sum_counts_take)
  with assms show ?thesis
    by (simp add: ele_idx_start_def array_read_def)
qed

lemma eleVertPos_uniform_built:
  assumes built: "VolumetricMesh_uniform Dim vn V en E k = Inr m"
    and fits: "int_range (en * k)"
    and rng: "0 \<le> e" "e < en" "0 \<le> l" "l < k"
  shows "eleVertPos Dim m e l = vertPos Dim m (E ! nat (e * k + l))"
proof -
  from fits have w: "wrap_int (en * k) = en * k" by (rule wrap_int_id)
  from built have m: "ele_num' m = en" "vert_per_ele' m = [k]" "uniform_ele_type' m"
      "elements' m = take (nat (en * k)) E" and len: "en * k \<le> int (length E)"
    by (auto simp: VolumetricMesh_uniform_def init_uniform_Inr w)
  note b = uniform_slot_bound [OF rng]
  have z: "int_range 0" by (simp add: int_range_def)
  from z fits b(1,2) have "int_range (e * k)" by (rule int_range_between)
  moreover from z fits b(3) have "int_range (e * k + l)"
    by (rule int_range_between) (use b(4) in simp)
  ultimately have ws: "wrap_int (wrap_int (e * k) + l) = e * k + l"
    by (simp add: wrap_int_id)
  from m rng have start: "ele_idx_start m e l = Inr (wrap_int (e * k))"
    by (intro ele_idx_start_uniform) simp_all
  from b len have "array_read (elements' m) (e * k + l) = Inr (E ! nat (e * k + l))"
    by (simp add: m array_read_def)
  with start ws show ?thesis by (simp add: eleVertPos_def)
qed

lemma eleVertPos_ragged_built:
  assumes built: "VolumetricMesh_ragged Dim vn V en E ks = Inr m"
    and nonneg: "\<forall>c\<in>set (take (nat en) ks). 0 \<le> c"
    and fits: "int_range (sum_list (take (nat en) ks))"
    and rng: "0 \<le> e" "e < en" "0 \<le> l" "l < ks ! nat e"
  shows "eleVertPos Dim m e l = vertPos Dim m (E ! nat (sum_list (take (nat e) ks) + l))"
proof -
  let ?ks = "take (nat en) ks"
  from fits have w: "wrap_int (sum_list ?ks) = sum_list ?ks" by (rule wrap_int_id)
  from built have m: "ele_num' m = en" "vert_per_ele' m = ?ks" "\<not> uniform_ele_type' m"
      "elements' m = take (nat (sum_list ?ks)) E"
    and len: "en \<le> int (length ks)" "sum_list ?ks \<le> int (length E)"
    by (auto simp: VolumetricMesh_ragged_def init_ragged_Inr w)
  from len rng have e: "nat e < length ?ks" by simp
  from rng have nth: "?ks ! nat e = ks ! nat e" by simp
  from rng have pre: "take (nat e) ?ks = take (nat e) ks" by (simp add: min_def)
  from len rng have "min (length ks) (nat en) = nat en" by linarith
  with rng have "int (length (vert_per_ele' m)) = ele_num' m"
    by (simp add: m)
  then have "ele_idx_start m e l = Inr (wrap_int (sum_list (take (nat e) (vert_per_ele' m))))"
    using m(3) rng by (intro ele_idx_start_ragged) (simp_all add: m nth)
  then have start: "ele_idx_start m e l = Inr (wrap_int (sum_list (take (nat e) ks)))"
    by (simp only: m(2) pre)
  from rng have "l < ?ks ! nat e" by (simp add: nth)
  note b0 = ragged_slot_bound [OF nonneg e rng(3) this]
  have b: "0 \<le> sum_list (take (nat e) ks)" "sum_list (take (nat e) ks) \<le> sum_list ?ks"
    "0 \<le> sum_list (take (nat e) ks) + l" "sum_list (take (nat e) ks) + l < sum_list ?ks"
    using b0 by (simp_all only: pre)
  have z: "int_range 0" by (simp add: int_range_def)
  from z fits b(1,2) have "int_range (sum_list (take (nat e) ks))" by (rule int_range_between)
  moreover from z fits b(3) have "int_range (sum_list (take (nat e) ks) + l)"
    by (rule int_range_between) (use b(4) in simp)
  ultimately have ws: "wrap_int (wrap_int (sum_list (take (nat e) ks)) + l) =
      sum_list (take (nat e) ks) + l"
    by (simp add: wrap_int_id)
  from b len have "array_read (elements' m) (sum_list (take (nat e) ks) + l) =
      Inr (E ! nat (sum_list (take (nat e) ks) + l))"
    by (simp add: m array_read_def)
  with start ws show ?thesis by (simp add: eleVertPos_def)
qed


section \<open>The example meshes, constructed and queried\<close>

lemma uniform_mesh_built:
  "VolumetricMesh_uniform 2 4 square_vertices 2 two_triangles 3 = Inr uniform_mesh"
  by (simp add: VolumetricMesh_uniform_def init_def new_copy_def array_read_def wrap_int_def
      square_vertices_def two_triangles_def uniform_mesh_def)

lemma ragged_mesh_built:
  "VolumetricMesh_ragged 2 4 square_vertices 2 triangle_quad [3, 4] = Inr ragged_mesh"
  by (simp add: VolumetricMesh_ragged_def init_def new_copy_def array_read_def wrap_int_def
      numeral_2_eq_2 square_vertices_def triangle_quad_def ragged_mesh_def)


lemma dangling_mesh_built:
  "VolumetricMesh_uniform 2 4 square_vertices 2 dangling_elements 3 = Inr dangling_mesh"
  by (simp add: VolumetricMesh_uniform_def init_def new_copy_def array_read_def wrap_int_def
      square_vertices_def dangling_elements_def dangling_mesh_def)

lemma dangling_ragged_mesh_built:
  "VolumetricMesh_ragged 2 4 square_vertices 2 dangling_quad [3, 4] = Inr dangling_ragged_mesh"
  by (simp add: VolumetricMesh_ragged_def init_def new_copy_def array_read_def wrap_int_def
      numeral_2_eq_2 square_vertices_def dangling_quad_def dangling_ragged_mesh_def)

lemma counts_3_4_nonneg: "\<forall>c\<in>set (take (nat 2) [3, 4 :: int]). 0 \<le> c"
  by (simp add: numeral_2_eq_2)

lemma counts_3_4_fit: "int_range (sum_list (take (nat 2) [3, 4 :: int]))"
  by (simp add: numeral_2_eq_2 int_range_def)

lemma small_products_fit: "int_range (4 * int 2)" "int_range (2 * 3)"
  by (simp_all add: int_range_def)


text \<open>
  The two triangles, queried: four vertices, two elements of three vertices, and the
  third vertex of the second element at \<open>(0,1)\<close>.
\<close>

lemma two_triangles_scenario:
  "vertNum uniform_mesh = 4" "eleNum uniform_mesh = 2" "eleVertNum uniform_mesh 0 = Inr 3"
  "eleVertPos 2 uniform_mesh 1 2 = Inr [0, 1]"
  by (simp_all add: uniform_mesh_def square_vertices_def two_triangles_def vertNum_def
      eleNum_def eleVertNum_def eleVertPos_def ele_idx_start_def vertPos_def array_read_def
      numeral_2_eq_2 wrap_int_def)


text \<open>
  With the counts \<open>[3,-2]\<close> the connectivity buffer has one entry, and the third slot
  of the first element is outside it.
\<close>

lemma negative_count_mesh_built:
  "VolumetricMesh_ragged 2 4 square_vertices 2 three_entries [3, - 2] = Inr negative_count_mesh"
  by (simp add: VolumetricMesh_ragged_def init_def new_copy_def array_read_def wrap_int_def
      numeral_2_eq_2 square_vertices_def three_entries_def negative_count_mesh_def)

lemma negative_count_mesh_read:
  "eleVertNum negative_count_mesh 0 = Inr 3"
  "eleVertPos 2 negative_count_mesh 0 2 = Inl OutOfBounds"
  "vertPos 2 negative_count_mesh (three_entries ! 2) = Inr [0, 1]"
  by (simp_all add: negative_count_mesh_def three_entries_def square_vertices_def eleVertNum_def
      eleVertPos_def ele_idx_start_def vertPos_def array_read_def wrap_int_def numeral_2_eq_2)


text \<open>
  Three elements of 1431655766 vertices: the buffer has two entries, and the third slot
  of the first element is outside it.
\<close>

lemma wrapped_product_mesh_built:
  "VolumetricMesh_uniform 2 4 square_vertices 3 long_elements 1431655766 =
     Inr wrapped_product_mesh"
  by (simp add: VolumetricMesh_uniform_def init_def new_copy_def array_read_def wrap_int_def
      numeral_2_eq_2 square_vertices_def long_elements_def wrapped_product_mesh_def)

lemma wrapped_product_mesh_read:
  "eleVertNum wrapped_product_mesh 0 = Inr 1431655766"
  "eleVertPos 2 wrapped_product_mesh 0 2 = Inl OutOfBounds"
  "vertPos 2 wrapped_product_mesh (long_elements ! 2) = Inr [0, 0]"
  by (simp_all add: wrapped_product_mesh_def long_elements_def square_vertices_def eleVertNum_def
      eleVertPos_def ele_idx_start_def vertPos_def array_read_def wrap_int_def numeral_2_eq_2)



lemma wrapped_sum_mesh_read:
  "ele_idx_start wrapped_sum_mesh 2 2 = Inr (- 2)"
  "eleVertPos 2 wrapped_sum_mesh 2 2 = vertPos 2 wrapped_sum_mesh (three_entries ! 0)"
  by (simp_all add: wrapped_sum_mesh_def wrapping_counts_def three_entries_def
      eleVertPos_def ele_idx_start_def array_read_def wrap_int_def numeral_2_eq_2)

lemma vertex_product_wraps:
  "VolumetricMesh_uniform 2 1073741824 V en E k = (Inl BadArrayLength :: failure + 's VolumetricMesh)"
  by (simp add: VolumetricMesh_uniform_def init_def new_copy_def wrap_int_def)


section \<open>Copy fidelity of the mesh\<close>

text \<open>
  Claim C1, amended. Let a mesh be built by either constructor from the vertex array
  \<open>V\<close> and the connectivity array \<open>E\<close>, with \<open>vert_num*Dim\<close> and the number of
  connectivity slots (\<open>ele_num*k\<close>, or the sum of the counts) within the range of
  \<^verbatim>\<open>int\<close> and, for the ragged constructor, no negative count. Then the mesh gives back
  the input: for every vertex index \<open>i\<close> in \<open>[0, vert_num)\<close>, \<open>vertPos i\<close> returns a
  vector of \<open>Dim\<close> components, the \<open>j\<close>-th being \<open>V[Dim*i + j]\<close>; for every element \<open>e\<close>
  in \<open>[0, ele_num)\<close> and local index \<open>l\<close> within the element's vertex count,
  \<open>eleVertPos e l\<close> is \<open>vertPos\<close> of the vertex index that the input array \<open>E\<close> holds at
  the element's \<open>l\<close>-th slot (slot \<open>e*k + l\<close> for the uniform constructor, the sum of the
  counts of the elements before \<open>e\<close>, plus \<open>l\<close>, for the ragged one). Without the
  provisos the connectivity buffer is shorter than the slots of the elements, and a
  query in range reads outside it.
\<close>

theorem mesh_round_trip:
  "(VolumetricMesh_uniform Dim vn V en E k = Inr m \<and>
    int_range (vn * int Dim) \<and> int_range (en * k) \<longrightarrow>
      (\<forall>i. 0 \<le> i \<and> i < vn \<longrightarrow>
         (\<exists>pos. vertPos Dim m i = Inr pos \<and> length pos = Dim \<and>
                (\<forall>j<Dim. pos ! j = V ! (Dim * nat i + j)))) \<and>
      (\<forall>e l. 0 \<le> e \<and> e < en \<and> 0 \<le> l \<and> l < k \<longrightarrow>
         eleVertPos Dim m e l = vertPos Dim m (E ! nat (e * k + l)))) \<and>
   (VolumetricMesh_ragged Dim vn V en E ks = Inr m' \<and>
    int_range (vn * int Dim) \<and> int_range (sum_list (take (nat en) ks)) \<and>
    (\<forall>c\<in>set (take (nat en) ks). 0 \<le> c) \<longrightarrow>
      (\<forall>i. 0 \<le> i \<and> i < vn \<longrightarrow>
         (\<exists>pos. vertPos Dim m' i = Inr pos \<and> length pos = Dim \<and>
                (\<forall>j<Dim. pos ! j = V ! (Dim * nat i + j)))) \<and>
      (\<forall>e l. 0 \<le> e \<and> e < en \<and> 0 \<le> l \<and> l < ks ! nat e \<longrightarrow>
         eleVertPos Dim m' e l = vertPos Dim m' (E ! nat (sum_list (take (nat e) ks) + l))))"
proof -
  have verts: "\<exists>pos. vertPos Dim x i = Inr pos \<and> length pos = Dim \<and>
      (\<forall>j<Dim. pos ! j = V ! (Dim * nat i + j))"
    if built: "init Dim vn V en E cs u = Inr x" and fits: "int_range (vn * int Dim)"
      and rng: "0 \<le> i" "i < vn" for x cs u i
  proof -
    from init_members(6) [OF built] fits have len: "vn * int Dim \<le> int (length V)"
      by (simp add: wrap_int_id)
    from built fits rng have "vertPos Dim x i = Inr (take Dim (drop (Dim * nat i) V))"
      by (rule vertPos_built)
    with vertex_block_nth [OF len rng] show ?thesis by simp
  qed
  show ?thesis
    using verts [of "[k]" True m] verts [of ks False m']
      eleVertPos_uniform_built [of Dim vn V en E k m]
      eleVertPos_ragged_built [of Dim vn V en E ks m']
    unfolding VolumetricMesh_uniform_def VolumetricMesh_ragged_def by blast
qed

theorem mesh_round_trip_witness:
  "VolumetricMesh_uniform 2 4 square_vertices 2 two_triangles 3 = Inr uniform_mesh \<and>
   int_range (4 * int 2) \<and> int_range (2 * 3) \<and>
   (\<exists>pos. vertPos 2 uniform_mesh 1 = Inr pos \<and> length pos = 2 \<and> pos ! 0 = 1 \<and> pos ! 1 = 0) \<and>
   eleVertPos 2 uniform_mesh 1 2 = vertPos 2 uniform_mesh 2 \<and>
   VolumetricMesh_ragged 2 4 square_vertices 2 triangle_quad [3, 4] = Inr ragged_mesh \<and>
   int_range (sum_list (take (nat 2) [3, 4])) \<and>
   (\<exists>pos. vertPos 2 ragged_mesh 2 = Inr pos \<and> length pos = 2 \<and> pos ! 0 = 0 \<and> pos ! 1 = 1) \<and>
   eleVertPos 2 ragged_mesh 1 3 = vertPos 2 ragged_mesh 0"
proof -
  note uni = mesh_round_trip [where Dim = 2 and vn = 4 and V = square_vertices and en = 2
      and E = two_triangles and k = 3 and m = uniform_mesh, THEN conjunct1, rule_format,
      OF conjI [OF uniform_mesh_built conjI [OF small_products_fit]]]
  note rag = mesh_round_trip [where Dim = 2 and vn = 4 and V = square_vertices and en = 2
      and E = triangle_quad and ks = "[3, 4]" and m' = ragged_mesh, THEN conjunct2, THEN mp,
      OF conjI [OF ragged_mesh_built
        conjI [OF small_products_fit(1) conjI [OF counts_3_4_fit counts_3_4_nonneg]]]]
  from uni [THEN conjunct1, rule_format, of 1]
  have u1: "\<exists>pos. vertPos 2 uniform_mesh 1 = Inr pos \<and> length pos = 2 \<and> pos ! 0 = 1 \<and> pos ! 1 = 0"
    by (auto simp: numeral_2_eq_2 square_vertices_def)
  from uni [THEN conjunct2, rule_format, of 1 2]
  have u2: "eleVertPos 2 uniform_mesh 1 2 = vertPos 2 uniform_mesh 2"
    by (simp add: two_triangles_def)
  from rag [THEN conjunct1, rule_format, of 2]
  have r1: "\<exists>pos. vertPos 2 ragged_mesh 2 = Inr pos \<and> length pos = 2 \<and> pos ! 0 = 0 \<and> pos ! 1 = 1"
    by (auto simp: numeral_2_eq_2 square_vertices_def)
  from rag [THEN conjunct2, rule_format, of 1 3]
  have r2: "eleVertPos 2 ragged_mesh 1 3 = vertPos 2 ragged_mesh 0"
    by (simp add: triangle_quad_def)
  from uniform_mesh_built u1 u2 ragged_mesh_built r1 r2 small_products_fit counts_3_4_fit
  show ?thesis by blast
qed

theorem mesh_round_trip_counterexample:
  "VolumetricMesh_ragged 2 4 square_vertices 2 three_entries [3, - 2] = Inr negative_count_mesh \<and>
   eleVertNum negative_count_mesh 0 = Inr 3 \<and>
   eleVertPos 2 negative_count_mesh 0 2 = Inl OutOfBounds \<and>
   vertPos 2 negative_count_mesh (three_entries ! 2) = Inr [0, 1] \<and>
   VolumetricMesh_uniform 2 4 square_vertices 3 long_elements 1431655766 =
     Inr wrapped_product_mesh \<and>
   eleVertNum wrapped_product_mesh 0 = Inr 1431655766 \<and>
   eleVertPos 2 wrapped_product_mesh 0 2 = Inl OutOfBounds \<and>
   vertPos 2 wrapped_product_mesh (long_elements ! 2) = Inr [0, 0]"
  by (simp add: negative_count_mesh_built negative_count_mesh_read
      wrapped_product_mesh_built wrapped_product_mesh_read)


section \<open>Uniform and ragged construction of the same mesh\<close>








section \<open>The layout of the ragged connectivity buffer\<close>




section \<open>Range checks\<close>

lemma vertPos_outside:
  "i < 0 \<or> vert_num' m \<le> i \<Longrightarrow> vertPos Dim m i = Inl (Fatal ''vertex index out of range!'')"
  by (auto simp: vertPos_def)

lemma eleVertPos_ele_outside:
  "e < 0 \<or> ele_num' m \<le> e \<Longrightarrow> eleVertPos Dim m e l = Inl (Fatal ''element index out of range!'')"
  by (auto simp: eleVertPos_def ele_idx_start_def)

lemma eleVertPos_count_fatal:
  assumes "init Dim vn V en E ks u = Inr m" and "eleVertNum m 0 = Inr k \<or> eleNum m \<le> 0"
  shows "is_fatal (eleVertPos Dim m 0 k)"
proof (cases "ele_num' m \<le> 0")
  case True
  then show ?thesis by (simp add: eleVertPos_ele_outside is_fatal_simps)
next
  case False
  with assms(2) have "eleVertNum m 0 = Inr k" by (simp add: eleNum_def)
  with False show ?thesis
    by (auto simp: eleVertNum_def eleVertPos_def ele_idx_start_def is_fatal_simps
        split: if_splits)
qed

lemma eleVertNum_defined:
  assumes "init Dim vn V en E ks u = Inr m"
  shows "(\<exists>k. eleVertNum m 0 = Inr k) \<or> eleNum m \<le> 0"
proof (cases u)
  case True
  with init_members(3,7) [OF assms] show ?thesis
    by (auto simp: eleVertNum_def array_read_def)
next
  case False
  with init_members(2,3,8) [OF assms] show ?thesis
    by (auto simp: eleVertNum_def eleNum_def array_read_def)
qed

lemma vertPos_valid_entry:
  assumes built: "init Dim vn V en E ks u = Inr m" and fits: "int_range (vn * int Dim)"
    and valid: "\<forall>g\<in>set (elements' m). 0 \<le> g \<and> g < vn"
    and slot: "elements' m = take n E" "i < n" "n \<le> length E"
  shows "\<exists>pos. vertPos Dim m (E ! i) = Inr pos"
proof -
  from slot have "E ! i = elements' m ! i" "i < length (elements' m)" by simp_all
  then have "E ! i \<in> set (elements' m)" by (metis nth_mem)
  with valid have "0 \<le> E ! i" "E ! i < vn" by simp_all
  with built fits have "vertPos Dim m (E ! i) = Inr (take Dim (drop (Dim * nat (E ! i)) V))"
    by (rule vertPos_built)
  then show ?thesis ..
qed

lemma eleVertPos_uniform_returns:
  assumes built: "VolumetricMesh_uniform Dim vn V en E k = Inr m"
    and fits: "int_range (vn * int Dim)" "int_range (en * k)"
    and valid: "\<forall>g\<in>set (elements' m). 0 \<le> g \<and> g < vn"
    and rng: "0 \<le> e" "e < en" "0 \<le> l" "l < k"
  shows "\<exists>pos. eleVertPos Dim m e l = Inr pos"
proof -
  from fits(2) have w: "wrap_int (en * k) = en * k" by (rule wrap_int_id)
  from built have init: "init Dim vn V en E [k] True = Inr m"
    by (simp add: VolumetricMesh_uniform_def)
  then have m: "elements' m = take (nat (en * k)) E" and len: "en * k \<le> int (length E)"
    by (auto simp: init_uniform_Inr w)
  note b = uniform_slot_bound [OF rng]
  from b(3,4) have "nat (e * k + l) < nat (en * k)" by linarith
  moreover from len have "nat (en * k) \<le> length E" by linarith
  ultimately have "\<exists>pos. vertPos Dim m (E ! nat (e * k + l)) = Inr pos"
    using init fits(1) valid m by (intro vertPos_valid_entry)
  with eleVertPos_uniform_built [OF built fits(2) rng] show ?thesis by simp
qed

lemma eleVertPos_ragged_returns:
  assumes built: "VolumetricMesh_ragged Dim vn V en E ks = Inr m"
    and fits: "int_range (vn * int Dim)" "int_range (sum_list (take (nat en) ks))"
    and nonneg: "\<forall>c\<in>set (take (nat en) ks). 0 \<le> c"
    and valid: "\<forall>g\<in>set (elements' m). 0 \<le> g \<and> g < vn"
    and rng: "0 \<le> e" "e < en" "0 \<le> l" "l < ks ! nat e"
  shows "\<exists>pos. eleVertPos Dim m e l = Inr pos"
proof -
  let ?ks = "take (nat en) ks"
  from fits(2) have w: "wrap_int (sum_list ?ks) = sum_list ?ks" by (rule wrap_int_id)
  from built have init: "init Dim vn V en E ks False = Inr m"
    by (simp add: VolumetricMesh_ragged_def)
  then have m: "elements' m = take (nat (sum_list ?ks)) E"
    and len: "en \<le> int (length ks)" "sum_list ?ks \<le> int (length E)"
    by (auto simp: init_ragged_Inr w)
  from len rng have e: "nat e < length ?ks" by simp
  from rng have nth: "?ks ! nat e = ks ! nat e" by simp
  from rng have pre: "take (nat e) ?ks = take (nat e) ks" by (simp add: min_def)
  from rng have "l < ?ks ! nat e" by (simp add: nth)
  note b0 = ragged_slot_bound [OF nonneg e rng(3) this]
  have b: "0 \<le> sum_list (take (nat e) ks) + l" "sum_list (take (nat e) ks) + l < sum_list ?ks"
    using b0(3,4) by (simp_all only: pre)
  then have "nat (sum_list (take (nat e) ks) + l) < nat (sum_list ?ks)" by linarith
  moreover from len have "nat (sum_list ?ks) \<le> length E" by linarith
  ultimately have "\<exists>pos. vertPos Dim m (E ! nat (sum_list (take (nat e) ks) + l)) = Inr pos"
    using init fits(1) valid m by (intro vertPos_valid_entry)
  with eleVertPos_ragged_built [OF built nonneg fits(2) rng] show ?thesis by simp
qed


text \<open>
  Claim C4, amended. On a mesh that \<open>init\<close> has built (by either constructor),
  \<open>vertPos (-1)\<close>, \<open>vertPos (vertNum)\<close> and \<open>eleVertPos eleNum 0\<close> leave through the
  fatal exit with their diagnostic, and so does \<open>eleVertPos 0 (eleVertNum 0)\<close>: with the
  count that \<open>eleVertNum 0\<close> returns and, in a mesh without elements, with any second
  argument at all. For a vertex index in \<open>[0, vertNum)\<close>, \<open>vertPos\<close> returns a position
  when \<open>vert_num*Dim\<close> is within the range of \<^verbatim>\<open>int\<close>. For an element index in
  \<open>[0, eleNum)\<close> and a local index within the element's count, \<open>eleVertPos\<close> returns a
  position when moreover the number of connectivity slots (\<open>ele_num*k\<close>, or the sum of
  the counts) is within the range of \<^verbatim>\<open>int\<close>, no count is negative and every entry of
  the connectivity buffer is a vertex index in \<open>[0, vertNum)\<close>. With a dangling entry
  the call leaves through the fatal exit of \<open>vertPos\<close>; with a negative count or a
  number of slots beyond \<^verbatim>\<open>int\<close> it reads outside the connectivity buffer.
\<close>

theorem bounds_enforcement:
  "(init Dim vn V en E ks u = Inr m \<longrightarrow>
     vertPos Dim m (- 1) = Inl (Fatal ''vertex index out of range!'') \<and>
     vertPos Dim m (vertNum m) = Inl (Fatal ''vertex index out of range!'') \<and>
     eleVertPos Dim m (eleNum m) 0 = Inl (Fatal ''element index out of range!'') \<and>
     ((\<exists>k. eleVertNum m 0 = Inr k) \<or> eleNum m \<le> 0) \<and>
     (\<forall>k. eleVertNum m 0 = Inr k \<or> eleNum m \<le> 0 \<longrightarrow> is_fatal (eleVertPos Dim m 0 k)) \<and>
     (int_range (vn * int Dim) \<longrightarrow>
        (\<forall>i. 0 \<le> i \<and> i < vertNum m \<longrightarrow> (\<exists>pos. vertPos Dim m i = Inr pos)))) \<and>
   (VolumetricMesh_uniform Dim vn V en E k = Inr mu \<and>
    int_range (vn * int Dim) \<and> int_range (en * k) \<and>
    (\<forall>g\<in>set (elements' mu). 0 \<le> g \<and> g < vn) \<longrightarrow>
      (\<forall>e l. 0 \<le> e \<and> e < en \<and> 0 \<le> l \<and> l < k \<longrightarrow>
         (\<exists>pos. eleVertPos Dim mu e l = Inr pos))) \<and>
   (VolumetricMesh_ragged Dim vn V en E ks = Inr mr \<and>
    int_range (vn * int Dim) \<and> int_range (sum_list (take (nat en) ks)) \<and>
    (\<forall>c\<in>set (take (nat en) ks). 0 \<le> c) \<and>
    (\<forall>g\<in>set (elements' mr). 0 \<le> g \<and> g < vn) \<longrightarrow>
      (\<forall>e l. 0 \<le> e \<and> e < en \<and> 0 \<le> l \<and> l < ks ! nat e \<longrightarrow>
         (\<exists>pos. eleVertPos Dim mr e l = Inr pos)))"
proof (intro conjI allI impI)
  assume built: "init Dim vn V en E ks u = Inr m"
  show "vertPos Dim m (- 1) = Inl (Fatal ''vertex index out of range!'')"
    by (simp add: vertPos_outside)
  show "vertPos Dim m (vertNum m) = Inl (Fatal ''vertex index out of range!'')"
    by (simp add: vertPos_outside vertNum_def)
  show "eleVertPos Dim m (eleNum m) 0 = Inl (Fatal ''element index out of range!'')"
    by (simp add: eleVertPos_ele_outside eleNum_def)
  from built show "(\<exists>k. eleVertNum m 0 = Inr k) \<or> eleNum m \<le> 0"
    by (rule eleVertNum_defined)
  show "is_fatal (eleVertPos Dim m 0 k)" if "eleVertNum m 0 = Inr k \<or> eleNum m \<le> 0" for k
    using built that by (rule eleVertPos_count_fatal)
  show "\<exists>pos. vertPos Dim m i = Inr pos"
    if "int_range (vn * int Dim)" and "0 \<le> i \<and> i < vertNum m" for i
  proof -
    from that(2) init_members(1) [OF built] have "0 \<le> i" "i < vn" by (simp_all add: vertNum_def)
    with built that(1) have "vertPos Dim m i = Inr (take Dim (drop (Dim * nat i) V))"
      by (rule vertPos_built)
    then show ?thesis ..
  qed
next
  fix e l
  assume a: "VolumetricMesh_uniform Dim vn V en E k = Inr mu \<and>
    int_range (vn * int Dim) \<and> int_range (en * k) \<and>
    (\<forall>g\<in>set (elements' mu). 0 \<le> g \<and> g < vn)"
    and r: "0 \<le> e \<and> e < en \<and> 0 \<le> l \<and> l < k"
  from a r show "\<exists>pos. eleVertPos Dim mu e l = Inr pos"
    by (intro eleVertPos_uniform_returns [where V = V and E = E and en = en and k = k and vn = vn])
      blast+
next
  fix e l
  assume a: "VolumetricMesh_ragged Dim vn V en E ks = Inr mr \<and>
    int_range (vn * int Dim) \<and> int_range (sum_list (take (nat en) ks)) \<and>
    (\<forall>c\<in>set (take (nat en) ks). 0 \<le> c) \<and>
    (\<forall>g\<in>set (elements' mr). 0 \<le> g \<and> g < vn)"
    and r: "0 \<le> e \<and> e < en \<and> 0 \<le> l \<and> l < ks ! nat e"
  from a r show "\<exists>pos. eleVertPos Dim mr e l = Inr pos"
    by (intro eleVertPos_ragged_returns [where V = V and E = E and en = en and ks = ks and vn = vn])
      blast+
qed

theorem bounds_enforcement_witness:
  "init 2 4 square_vertices 2 two_triangles [3] True = Inr uniform_mesh \<and>
   vertPos 2 uniform_mesh (- 1) = Inl (Fatal ''vertex index out of range!'') \<and>
   vertPos 2 uniform_mesh 4 = Inl (Fatal ''vertex index out of range!'') \<and>
   eleVertPos 2 uniform_mesh 2 0 = Inl (Fatal ''element index out of range!'') \<and>
   eleVertNum uniform_mesh 0 = Inr 3 \<and>
   is_fatal (eleVertPos 2 uniform_mesh 0 3) \<and>
   (\<exists>pos. vertPos 2 uniform_mesh 3 = Inr pos) \<and>
   (\<exists>pos. eleVertPos 2 uniform_mesh 1 2 = Inr pos) \<and>
   VolumetricMesh_ragged 2 4 square_vertices 2 triangle_quad [3, 4] = Inr ragged_mesh \<and>
   (\<exists>pos. eleVertPos 2 ragged_mesh 1 3 = Inr pos)"
proof -
  have built: "init 2 4 square_vertices 2 two_triangles [3] True = Inr uniform_mesh"
    using uniform_mesh_built by (simp add: VolumetricMesh_uniform_def)
  note be = bounds_enforcement [where Dim = 2 and vn = 4 and V = square_vertices and en = 2]
  note gen = be [where E = two_triangles and ks = "[3]" and u = True and m = uniform_mesh,
      THEN conjunct1, THEN mp, OF built]
  have n: "vertNum uniform_mesh = 4" "eleNum uniform_mesh = 2" "eleVertNum uniform_mesh 0 = Inr 3"
    by (simp_all add: uniform_mesh_def vertNum_def eleNum_def eleVertNum_def array_read_def)
  have valid_u: "\<forall>g\<in>set (elements' uniform_mesh). 0 \<le> g \<and> g < 4"
    by (simp add: uniform_mesh_def two_triangles_def)
  have valid_r: "\<forall>g\<in>set (elements' ragged_mesh). 0 \<le> g \<and> g < 4"
    by (simp add: ragged_mesh_def triangle_quad_def)
  from gen n have out: "vertPos 2 uniform_mesh (- 1) = Inl (Fatal ''vertex index out of range!'')"
    "vertPos 2 uniform_mesh 4 = Inl (Fatal ''vertex index out of range!'')"
    "eleVertPos 2 uniform_mesh 2 0 = Inl (Fatal ''element index out of range!'')"
    by simp_all
  from gen n have cnt: "is_fatal (eleVertPos 2 uniform_mesh 0 3)" by blast
  from gen n small_products_fit(1) have v: "\<exists>pos. vertPos 2 uniform_mesh 3 = Inr pos" by simp
  from be [where E = two_triangles and k = 3 and mu = uniform_mesh, THEN conjunct2,
      THEN conjunct1, THEN mp,
      OF conjI [OF uniform_mesh_built conjI [OF small_products_fit(1)
        conjI [OF small_products_fit(2) valid_u]]], rule_format, of 1 2]
  have e: "\<exists>pos. eleVertPos 2 uniform_mesh 1 2 = Inr pos" by simp
  from be [where E = triangle_quad and ks = "[3, 4]" and mr = ragged_mesh, THEN conjunct2,
      THEN conjunct2, THEN mp,
      OF conjI [OF ragged_mesh_built conjI [OF small_products_fit(1)
        conjI [OF counts_3_4_fit conjI [OF counts_3_4_nonneg valid_r]]]], rule_format, of 1 3]
  have r: "\<exists>pos. eleVertPos 2 ragged_mesh 1 3 = Inr pos" by simp
  from built out n cnt v e r ragged_mesh_built show ?thesis by simp
qed

theorem bounds_enforcement_counterexample:
  "VolumetricMesh_uniform 2 4 square_vertices 2 dangling_elements 3 = Inr dangling_mesh \<and>
   eleNum dangling_mesh = 2 \<and> eleVertNum dangling_mesh 1 = Inr 3 \<and>
   eleVertPos 2 dangling_mesh 1 1 = Inl (Fatal ''vertex index out of range!'') \<and>
   VolumetricMesh_ragged 2 4 square_vertices 2 three_entries [3, - 2] = Inr negative_count_mesh \<and>
   eleNum negative_count_mesh = 2 \<and> eleVertNum negative_count_mesh 0 = Inr 3 \<and>
   eleVertPos 2 negative_count_mesh 0 2 = Inl OutOfBounds \<and>
   VolumetricMesh_uniform 2 4 square_vertices 3 long_elements 1431655766 =
     Inr wrapped_product_mesh \<and>
   eleNum wrapped_product_mesh = 3 \<and> eleVertNum wrapped_product_mesh 0 = Inr 1431655766 \<and>
   eleVertPos 2 wrapped_product_mesh 0 2 = Inl OutOfBounds"
  by (simp add: dangling_mesh_built negative_count_mesh_built wrapped_product_mesh_built)
    (simp add: dangling_mesh_def dangling_elements_def negative_count_mesh_def
      wrapped_product_mesh_def eleNum_def eleVertNum_def
      eleVertPos_def ele_idx_start_def array_read_def vertPos_def wrap_int_def)


section \<open>The vertex count of an element\<close>

text \<open>
  Claim C5, amended. In a mesh built by the uniform constructor, \<open>eleVertNum\<close> returns
  the shared count for every argument, in range or not. In a mesh built by the ragged
  constructor it returns the count of the element for an index in \<open>[0, eleNum)\<close>; for an
  index outside, it reads outside the count array: the accessor has no range check, no
  diagnostic is printed and the fatal exit is not taken.
\<close>

theorem eleVertNum_lookup:
  "(VolumetricMesh_uniform Dim vn V en E k = Inr m \<longrightarrow> (\<forall>i. eleVertNum m i = Inr k)) \<and>
   (VolumetricMesh_ragged Dim vn V en E ks = Inr m' \<longrightarrow>
      (\<forall>i. 0 \<le> i \<and> i < eleNum m' \<longrightarrow> eleVertNum m' i = Inr (ks ! nat i)) \<and>
      (\<forall>i. i < 0 \<or> eleNum m' \<le> i \<longrightarrow> eleVertNum m' i = Inl OutOfBounds) \<and>
      (\<forall>i. \<not> is_fatal (eleVertNum m' i)))"
proof (intro conjI impI allI)
  fix i
  assume "VolumetricMesh_uniform Dim vn V en E k = Inr m"
  then show "eleVertNum m i = Inr k"
    by (auto simp: VolumetricMesh_uniform_def init_uniform_Inr eleVertNum_def array_read_def)
next
  assume "VolumetricMesh_ragged Dim vn V en E ks = Inr m'"
  then have mem: "ele_num' m' = en" "vert_per_ele' m' = take (nat en) ks" "\<not> uniform_ele_type' m'"
    and en: "0 \<le> en" "en \<le> int (length ks)"
    by (auto simp: VolumetricMesh_ragged_def init_ragged_Inr)
  from en have len: "int (length (take (nat en) ks)) = en" by simp
  show "eleVertNum m' i = Inr (ks ! nat i)" if "0 \<le> i \<and> i < eleNum m'" for i
    using that by (simp add: eleVertNum_def array_read_def mem eleNum_def len del: length_take)
  show "eleVertNum m' i = Inl OutOfBounds" if "i < 0 \<or> eleNum m' \<le> i" for i
    using that by (auto simp: eleVertNum_def array_read_def mem eleNum_def len simp del: length_take)
  show "\<not> is_fatal (eleVertNum m' i)" for i
    by (simp add: eleVertNum_def array_read_def is_fatal_simps)
qed

theorem eleVertNum_lookup_witness:
  "VolumetricMesh_uniform 2 4 square_vertices 2 two_triangles 3 = Inr uniform_mesh \<and>
   eleVertNum uniform_mesh 7 = Inr 3 \<and> eleVertNum uniform_mesh (- 1) = Inr 3 \<and>
   VolumetricMesh_ragged 2 4 square_vertices 2 triangle_quad [3, 4] = Inr ragged_mesh \<and>
   eleVertNum ragged_mesh 1 = Inr 4 \<and>
   eleVertNum ragged_mesh (- 1) = Inl OutOfBounds"
proof -
  note lk = eleVertNum_lookup [where Dim = 2 and vn = 4 and V = square_vertices and en = 2]
  note uni = lk [where E = two_triangles and k = 3 and m = uniform_mesh,
      THEN conjunct1, rule_format, OF uniform_mesh_built]
  note rag = lk [where E = triangle_quad and ks = "[3, 4]" and m' = ragged_mesh,
      THEN conjunct2, rule_format, OF ragged_mesh_built]
  have n: "eleNum ragged_mesh = 2" by (simp add: ragged_mesh_def eleNum_def)
  from rag [THEN conjunct1, rule_format, of 1] n
  have r1: "eleVertNum ragged_mesh 1 = Inr 4" by simp
  from rag [THEN conjunct2, THEN conjunct1, rule_format, of "- 1"]
  have r2: "eleVertNum ragged_mesh (- 1) = Inl OutOfBounds" by simp
  from uniform_mesh_built ragged_mesh_built uni [of 7] uni [of "- 1"] r1 r2
  show ?thesis by simp
qed

theorem eleVertNum_lookup_counterexample:
  "VolumetricMesh_ragged 2 4 square_vertices 2 triangle_quad [3, 4] = Inr ragged_mesh \<and>
   eleNum ragged_mesh = 2 \<and>
   eleVertNum ragged_mesh 2 = Inl OutOfBounds \<and>
   \<not> is_fatal (eleVertNum ragged_mesh 2)"
  by (simp add: ragged_mesh_built)
    (simp add: ragged_mesh_def eleNum_def eleVertNum_def array_read_def is_fatal_simps)


section \<open>Dangling vertex indices\<close>

text \<open>
  Claim C6. Construction looks at no connectivity entry: whenever \<open>vert_num*Dim\<close> and
  the number of connectivity slots (\<open>ele_num*k\<close>, or the sum of the counts, none of them
  negative) are within the range of \<^verbatim>\<open>int\<close> and the arrays are that long, both
  constructors return a mesh, whatever the entries are. A dangling entry, one outside
  \<open>[0, vert_num)\<close>, shows when \<open>eleVertPos\<close> is called on its slot: the call leaves through
  the fatal exit of \<open>vertPos\<close>, with the diagnostic of \<open>vertPos\<close>.
\<close>

theorem dangling_index_surfaces_at_query:
  "(int_range (vn * int Dim) \<and> 0 \<le> vn * int Dim \<and> vn * int Dim \<le> int (length V) \<and>
    int_range (en * k) \<and> 0 \<le> en * k \<and> en * k \<le> int (length E) \<longrightarrow>
      (\<exists>m. VolumetricMesh_uniform Dim vn V en E k = Inr m \<and>
         (\<forall>e l. 0 \<le> e \<and> e < en \<and> 0 \<le> l \<and> l < k \<and>
                (E ! nat (e * k + l) < 0 \<or> vn \<le> E ! nat (e * k + l)) \<longrightarrow>
            eleVertPos Dim m e l = Inl (Fatal ''vertex index out of range!'')))) \<and>
   (int_range (vn * int Dim) \<and> 0 \<le> vn * int Dim \<and> vn * int Dim \<le> int (length V) \<and>
    0 \<le> en \<and> en \<le> int (length ks) \<and> (\<forall>c\<in>set (take (nat en) ks). 0 \<le> c) \<and>
    int_range (sum_list (take (nat en) ks)) \<and>
    sum_list (take (nat en) ks) \<le> int (length E) \<longrightarrow>
      (\<exists>m. VolumetricMesh_ragged Dim vn V en E ks = Inr m \<and>
         (\<forall>e l. 0 \<le> e \<and> e < en \<and> 0 \<le> l \<and> l < ks ! nat e \<and>
                (E ! nat (sum_list (take (nat e) ks) + l) < 0 \<or>
                 vn \<le> E ! nat (sum_list (take (nat e) ks) + l)) \<longrightarrow>
            eleVertPos Dim m e l = Inl (Fatal ''vertex index out of range!''))))"
proof (intro conjI impI)
  assume a: "int_range (vn * int Dim) \<and> 0 \<le> vn * int Dim \<and> vn * int Dim \<le> int (length V) \<and>
    int_range (en * k) \<and> 0 \<le> en * k \<and> en * k \<le> int (length E)"
  then have w: "wrap_int (vn * int Dim) = vn * int Dim" "wrap_int (en * k) = en * k"
    by (simp_all add: wrap_int_id)
  with a obtain m :: "'a VolumetricMesh"
    where built: "VolumetricMesh_uniform Dim vn V en E k = Inr m"
    by (auto simp: VolumetricMesh_uniform_def init_uniform_Inr)
  then have vn: "vert_num' m = vn"
    by (auto simp: VolumetricMesh_uniform_def init_uniform_Inr)
  from a have fits: "int_range (en * k)" by simp
  have "eleVertPos Dim m e l = Inl (Fatal ''vertex index out of range!'')"
    if "0 \<le> e \<and> e < en \<and> 0 \<le> l \<and> l < k \<and>
        (E ! nat (e * k + l) < 0 \<or> vn \<le> E ! nat (e * k + l))" for e l
  proof -
    from that have "0 \<le> e" "e < en" "0 \<le> l" "l < k" by blast+
    with built fits have "eleVertPos Dim m e l = vertPos Dim m (E ! nat (e * k + l))"
      by (rule eleVertPos_uniform_built)
    with that vn show ?thesis by (simp add: vertPos_outside)
  qed
  with built show "\<exists>m. VolumetricMesh_uniform Dim vn V en E k = Inr m \<and>
         (\<forall>e l. 0 \<le> e \<and> e < en \<and> 0 \<le> l \<and> l < k \<and>
                (E ! nat (e * k + l) < 0 \<or> vn \<le> E ! nat (e * k + l)) \<longrightarrow>
            eleVertPos Dim m e l = Inl (Fatal ''vertex index out of range!''))"
    by blast
next
  assume a: "int_range (vn * int Dim) \<and> 0 \<le> vn * int Dim \<and> vn * int Dim \<le> int (length V) \<and>
    0 \<le> en \<and> en \<le> int (length ks) \<and> (\<forall>c\<in>set (take (nat en) ks). 0 \<le> c) \<and>
    int_range (sum_list (take (nat en) ks)) \<and>
    sum_list (take (nat en) ks) \<le> int (length E)"
  then have w: "wrap_int (vn * int Dim) = vn * int Dim"
    "wrap_int (sum_list (take (nat en) ks)) = sum_list (take (nat en) ks)"
    by (simp_all add: wrap_int_id)
  from a have "0 \<le> sum_list (take (nat en) ks)"
    by (intro sum_list_nonneg) simp
  with a w obtain m :: "'a VolumetricMesh"
    where built: "VolumetricMesh_ragged Dim vn V en E ks = Inr m"
    by (auto simp: VolumetricMesh_ragged_def init_ragged_Inr)
  then have vn: "vert_num' m = vn"
    by (auto simp: VolumetricMesh_ragged_def init_ragged_Inr)
  from a have nonneg: "\<forall>c\<in>set (take (nat en) ks). 0 \<le> c"
    and fits: "int_range (sum_list (take (nat en) ks))" by simp_all
  have "eleVertPos Dim m e l = Inl (Fatal ''vertex index out of range!'')"
    if "0 \<le> e \<and> e < en \<and> 0 \<le> l \<and> l < ks ! nat e \<and>
                (E ! nat (sum_list (take (nat e) ks) + l) < 0 \<or>
                 vn \<le> E ! nat (sum_list (take (nat e) ks) + l))" for e l
  proof -
    from that have "0 \<le> e" "e < en" "0 \<le> l" "l < ks ! nat e" by blast+
    with built nonneg fits
    have "eleVertPos Dim m e l = vertPos Dim m (E ! nat (sum_list (take (nat e) ks) + l))"
      by (rule eleVertPos_ragged_built)
    with that vn show ?thesis by (simp add: vertPos_outside)
  qed
  with built show "\<exists>m. VolumetricMesh_ragged Dim vn V en E ks = Inr m \<and>
         (\<forall>e l. 0 \<le> e \<and> e < en \<and> 0 \<le> l \<and> l < ks ! nat e \<and>
                (E ! nat (sum_list (take (nat e) ks) + l) < 0 \<or>
                 vn \<le> E ! nat (sum_list (take (nat e) ks) + l)) \<longrightarrow>
            eleVertPos Dim m e l = Inl (Fatal ''vertex index out of range!''))"
    by blast
qed

theorem dangling_index_surfaces_at_query_witness:
  "VolumetricMesh_uniform 2 4 square_vertices 2 dangling_elements 3 = Inr dangling_mesh \<and>
   dangling_elements ! nat (1 * 3 + 1) = 7 \<and>
   eleVertPos 2 dangling_mesh 1 1 = Inl (Fatal ''vertex index out of range!'') \<and>
   VolumetricMesh_ragged 2 4 square_vertices 2 dangling_quad [3, 4] = Inr dangling_ragged_mesh \<and>
   dangling_quad ! nat (sum_list (take (nat 1) [3, 4]) + 3) = 9 \<and>
   eleVertPos 2 dangling_ragged_mesh 1 3 = Inl (Fatal ''vertex index out of range!'')"
proof -
  note dg = dangling_index_surfaces_at_query [where Dim = 2 and vn = 4 and V = square_vertices
      and en = 2]
  have pu: "int_range (4 * int 2) \<and> 0 \<le> 4 * int 2 \<and> 4 * int 2 \<le> int (length square_vertices) \<and>
      int_range (2 * 3) \<and> 0 \<le> (2::int) * 3 \<and> 2 * 3 \<le> int (length dangling_elements)"
    by (simp add: square_vertices_def dangling_elements_def int_range_def)
  have pr: "int_range (4 * int 2) \<and> 0 \<le> 4 * int 2 \<and> 4 * int 2 \<le> int (length square_vertices) \<and>
      0 \<le> (2::int) \<and> 2 \<le> int (length [3, 4 :: int]) \<and>
      (\<forall>c\<in>set (take (nat 2) [3, 4 :: int]). 0 \<le> c) \<and>
      int_range (sum_list (take (nat 2) [3, 4])) \<and>
      sum_list (take (nat 2) [3, 4]) \<le> int (length dangling_quad)"
    by (simp add: square_vertices_def dangling_quad_def numeral_2_eq_2 int_range_def)
  have su: "dangling_elements ! nat (1 * 3 + 1) = 7"
    by (simp add: dangling_elements_def)
  have sr: "dangling_quad ! nat (sum_list (take (nat 1) [3, 4]) + 3) = 9"
    by (simp add: dangling_quad_def)
  from dg [where E = dangling_elements and k = 3, THEN conjunct1, THEN mp, OF pu]
  obtain m :: "real VolumetricMesh" where
    m: "VolumetricMesh_uniform 2 4 square_vertices 2 dangling_elements 3 = Inr m"
      "\<forall>e l. 0 \<le> e \<and> e < 2 \<and> 0 \<le> l \<and> l < 3 \<and>
                (dangling_elements ! nat (e * 3 + l) < 0 \<or> 4 \<le> dangling_elements ! nat (e * 3 + l)) \<longrightarrow>
            eleVertPos 2 m e l = Inl (Fatal ''vertex index out of range!'')"
    by blast
  from m(1) dangling_mesh_built have "m = dangling_mesh" by simp
  with m(2) [rule_format, of 1 1] su
  have u: "eleVertPos 2 dangling_mesh 1 1 = Inl (Fatal ''vertex index out of range!'')"
    by simp
  from dg [where E = dangling_quad and ks = "[3, 4]", THEN conjunct2, THEN mp, OF pr]
  obtain m' :: "real VolumetricMesh" where
    m': "VolumetricMesh_ragged 2 4 square_vertices 2 dangling_quad [3, 4] = Inr m'"
      "\<forall>e l. 0 \<le> e \<and> e < 2 \<and> 0 \<le> l \<and> l < [3, 4] ! nat e \<and>
                (dangling_quad ! nat (sum_list (take (nat e) [3, 4]) + l) < 0 \<or>
                 4 \<le> dangling_quad ! nat (sum_list (take (nat e) [3, 4]) + l)) \<longrightarrow>
            eleVertPos 2 m' e l = Inl (Fatal ''vertex index out of range!'')"
    by blast
  from m'(1) dangling_ragged_mesh_built have "m' = dangling_ragged_mesh" by simp
  with m'(2) [rule_format, of 1 3] sr
  have r: "eleVertPos 2 dangling_ragged_mesh 1 3 = Inl (Fatal ''vertex index out of range!'')"
    by simp
  from dangling_mesh_built dangling_ragged_mesh_built su sr u r show ?thesis by simp
qed


section \<open>Vector operations\<close>

lemma upt_2: "[0..<2] = [0, 1]"
  by (simp add: numeral_2_eq_2)

lemma Vector2D_plus_components:
  "Vector2D_plus (Vector2D a0 a1) (Vector2D b0 b1) = Vector2D (a0 + b0) (a1 + b1)"
  by (simp add: Vector2D_plus_def upt_2)

lemma Vector2D_uminus_components:
  "Vector2D_uminus (Vector2D a0 a1) = Vector2D (- a0) (- a1)"
  by (simp add: Vector2D_uminus_def)

lemma Vector2D_assign_eq: "Vector2D_assign self vec2 = vec2"
  by (cases self; cases vec2) (simp add: Vector2D_assign_def upt_2)

lemma Vector2D_equal_iff:
  "Vector2D_equal ne (Vector2D a0 a1) (Vector2D b0 b1) \<longleftrightarrow> \<not> ne a0 b0 \<and> \<not> ne a1 b1"
  by (simp add: Vector2D_equal_def upt_2)

lemma sqrt_25: "sqrt 25 = 5"
  by (rule real_sqrt_unique) simp_all

lemma special_ne_iff: "special_ne a b \<longleftrightarrow> a = SNaN \<or> b = SNaN \<or> a \<noteq> b"
  by (cases a; cases b) (simp_all add: special_ne_def ieee_of_special_def ieee_ne_def)

lemma special_sums:
  "SPlusInf + SMinusInf = SNaN" "SMinusInf + SPlusInf = SNaN" "SNaN + x = SNaN" "x + SNaN = SNaN"
  "SZero + x = x" "x + SZero = x" "SPlusInf + SPlusInf = SPlusInf" "SMinusInf + SMinusInf = SMinusInf"
  "- SPlusInf = SMinusInf" "- SMinusInf = SPlusInf" "- SZero = SZero" "- SNaN = SNaN"
  "(0::ieee_special) = SZero"
  by (cases x; simp add: plus_ieee_special_def uminus_ieee_special_def zero_ieee_special_def)+


text \<open>
  Claim C7. Whatever the scalar arithmetic, the square root and the comparison are:
  when the norm of \<open>v\<close> compares unequal to zero, \<open>normalize\<close> leaves in \<open>v\<close> the two
  components of \<open>v\<close>, each divided by the norm that \<open>v\<close> had on entry; when the norm is
  zero, \<open>v\<close> is left as it was. Either way the call returns (the vector itself).
\<close>

theorem normalize_spec:
  "(ne (Vector2D_norm sqrt_s v) 0 \<longrightarrow>
      Vector2D_normalize sqrt_s ne v =
        Vector2D (Vector2D_index v 0 / Vector2D_norm sqrt_s v)
                 (Vector2D_index v 1 / Vector2D_norm sqrt_s v)) \<and>
   (\<not> ne (Vector2D_norm sqrt_s v) 0 \<longrightarrow> Vector2D_normalize sqrt_s ne v = v)"
  by (cases v) (simp add: Vector2D_normalize_def Let_def upt_2)

theorem normalize_spec_witness:
  "Vector2D_norm sqrt (Vector2D 3 4) = 5 \<and>
   Vector2D_normalize sqrt (\<lambda>a b. a \<noteq> b) (Vector2D 3 4) = Vector2D (3 / 5) (4 / 5) \<and>
   Vector2D_norm sqrt (Vector2D 0 0) = 0 \<and>
   Vector2D_normalize sqrt (\<lambda>a b. a \<noteq> b) (Vector2D 0 0) = Vector2D 0 0"
proof -
  have n: "Vector2D_norm sqrt (Vector2D 3 4) = 5" "Vector2D_norm sqrt (Vector2D 0 0) = 0"
    by (simp_all add: Vector2D_norm_def sqrt_25)
  from normalize_spec [of "\<lambda>a b. a \<noteq> b" sqrt "Vector2D 3 4"]
    normalize_spec [of "\<lambda>a b. a \<noteq> b" sqrt "Vector2D 0 0"] n
  show ?thesis by simp
qed


text \<open>
  Claim C8. \<open>a.dot(b)\<close> is \<open>a[0]*b[0] + a[1]*b[1]\<close> and \<open>a.cross(b)\<close> is
  \<open>a[0]*b[1] - a[1]*b[0]\<close>. For the unit vectors \<open>e0 = (1,0)\<close> and \<open>e1 = (0,1)\<close> this
  gives \<open>e0.dot(e1) = 0\<close>, \<open>e0.cross(e1) = 1\<close> and \<open>e1.cross(e0) = -1\<close> in every scalar
  arithmetic in which the seven products, sums and differences of 0 and 1 that occur
  have their exact values, as they have in IEEE-754 arithmetic and in every ring.
\<close>

theorem dot_cross_spec:
  fixes a0 a1 b0 b1 :: "'a::{zero,one,plus,minus,uminus,times}"
  assumes "(1::'a) * 0 = 0" "(0::'a) * 1 = 0" "(0::'a) + 0 = 0"
    and "(1::'a) * 1 = 1" "(0::'a) * 0 = 0" "(1::'a) - 0 = 1" "(0::'a) - 1 = - 1"
  shows "Vector2D_dot (Vector2D a0 a1) (Vector2D b0 b1) = a0 * b0 + a1 * b1 \<and>
         Vector2D_cross (Vector2D a0 a1) (Vector2D b0 b1) = a0 * b1 - a1 * b0 \<and>
         Vector2D_dot (Vector2D 1 0) (Vector2D 0 (1::'a)) = 0 \<and>
         Vector2D_cross (Vector2D 1 0) (Vector2D 0 (1::'a)) = 1 \<and>
         Vector2D_cross (Vector2D 0 1) (Vector2D 1 (0::'a)) = - 1"
  using assms by (simp add: Vector2D_dot_def Vector2D_cross_def)

theorem dot_cross_spec_witness:
  "Vector2D_dot (Vector2D 2 3) (Vector2D 5 (7::real)) = 31 \<and>
   Vector2D_cross (Vector2D 2 3) (Vector2D 5 (7::real)) = - 1 \<and>
   Vector2D_dot (Vector2D 1 0) (Vector2D 0 (1::real)) = 0 \<and>
   Vector2D_cross (Vector2D 1 0) (Vector2D 0 (1::real)) = 1 \<and>
   Vector2D_cross (Vector2D 0 1) (Vector2D 1 (0::real)) = - 1"
  using dot_cross_spec [where 'a = real, of 2 3 5 7] by simp


text \<open>
  Claim C9, amended. Whatever the scalar arithmetic and the comparison are, each law of
  vector addition holds under \<open>operator==\<close> exactly when the scalar law holds under
  \<^verbatim>\<open>!=\<close> in both components: \<open>a + b == b + a\<close> if and only if \<open>x + y\<close> does not
  compare unequal to \<open>y + x\<close>; \<open>(a + b) + c == a + (b + c)\<close> if and only if
  \<open>(x + y) + z\<close> does not compare unequal to \<open>x + (y + z)\<close>; \<open>a + (-a) == (0,0)\<close> if and
  only if \<open>x + (-x)\<close> does not compare unequal to 0. So a law holds for the vectors whose
  component sums are equal values that are not NaN, and for no others: with
  \<open>a = (inf, 0)\<close> and \<open>b = (-inf, 0)\<close> the first component of each sum is NaN and all
  three comparisons return false.
\<close>

theorem plus_laws:
  fixes a0 a1 b0 b1 c0 c1 :: "'a::{zero,plus,uminus}"
  shows
    "(Vector2D_equal ne (Vector2D_plus (Vector2D a0 a1) (Vector2D b0 b1))
                        (Vector2D_plus (Vector2D b0 b1) (Vector2D a0 a1)) \<longleftrightarrow>
        \<not> ne (a0 + b0) (b0 + a0) \<and> \<not> ne (a1 + b1) (b1 + a1)) \<and>
     (Vector2D_equal ne
          (Vector2D_plus (Vector2D_plus (Vector2D a0 a1) (Vector2D b0 b1)) (Vector2D c0 c1))
          (Vector2D_plus (Vector2D a0 a1) (Vector2D_plus (Vector2D b0 b1) (Vector2D c0 c1))) \<longleftrightarrow>
        \<not> ne ((a0 + b0) + c0) (a0 + (b0 + c0)) \<and> \<not> ne ((a1 + b1) + c1) (a1 + (b1 + c1))) \<and>
     (Vector2D_equal ne (Vector2D_plus (Vector2D a0 a1) (Vector2D_uminus (Vector2D a0 a1)))
                        (Vector2D 0 0) \<longleftrightarrow>
        \<not> ne (a0 + - a0) 0 \<and> \<not> ne (a1 + - a1) 0)"
  by (simp add: Vector2D_plus_components Vector2D_uminus_components Vector2D_equal_iff)

theorem plus_laws_witness:
  "Vector2D_equal special_ne (Vector2D_plus (Vector2D SPlusInf SZero) (Vector2D SZero SMinusInf))
                             (Vector2D_plus (Vector2D SZero SMinusInf) (Vector2D SPlusInf SZero)) \<and>
   Vector2D_equal special_ne
     (Vector2D_plus (Vector2D_plus (Vector2D SPlusInf SZero) (Vector2D SZero SMinusInf))
                    (Vector2D SPlusInf SMinusInf))
     (Vector2D_plus (Vector2D SPlusInf SZero)
                    (Vector2D_plus (Vector2D SZero SMinusInf) (Vector2D SPlusInf SMinusInf))) \<and>
   Vector2D_equal special_ne (Vector2D_plus (Vector2D SZero SZero) (Vector2D_uminus (Vector2D SZero SZero)))
                             (Vector2D 0 0)"
  using plus_laws [of special_ne SPlusInf SZero SZero SMinusInf SPlusInf SMinusInf]
    plus_laws [of special_ne SZero SZero SZero SZero SZero SZero]
  by (simp add: special_sums special_ne_iff)

theorem plus_laws_counterexample:
  "\<not> Vector2D_equal special_ne (Vector2D_plus (Vector2D SPlusInf SZero) (Vector2D SMinusInf SZero))
                               (Vector2D_plus (Vector2D SMinusInf SZero) (Vector2D SPlusInf SZero)) \<and>
   \<not> Vector2D_equal special_ne
       (Vector2D_plus (Vector2D_plus (Vector2D SPlusInf SZero) (Vector2D SMinusInf SZero))
                      (Vector2D SZero SZero))
       (Vector2D_plus (Vector2D SPlusInf SZero)
                      (Vector2D_plus (Vector2D SMinusInf SZero) (Vector2D SZero SZero))) \<and>
   \<not> Vector2D_equal special_ne
       (Vector2D_plus (Vector2D SPlusInf SZero) (Vector2D_uminus (Vector2D SPlusInf SZero)))
       (Vector2D 0 0)"
  by (simp add: Vector2D_plus_def Vector2D_uminus_def Vector2D_equal_def upt_2
      special_sums special_ne_iff)


text \<open>
  Claim C10, amended. The copy constructor gives a vector with exactly the two components
  of \<open>v\<close>, whatever the storage held before. The copy compares equal to \<open>v\<close> under
  \<open>operator==\<close> if and only if neither component of \<open>v\<close> compares unequal to itself:
  for \<^verbatim>\<open>float\<close> and \<^verbatim>\<open>double\<close>, if and only if no component of \<open>v\<close> is NaN.
\<close>

theorem copy_equal_spec:
  "Vector2D_copy self v = v \<and>
   (Vector2D_equal ne (Vector2D_copy self v) v \<longleftrightarrow>
      \<not> ne (Vector2D_index v 0) (Vector2D_index v 0) \<and>
      \<not> ne (Vector2D_index v 1) (Vector2D_index v 1)) \<and>
   (Vector2D_equal ieee_ne (Vector2D_copy self' w) w \<longleftrightarrow>
      Vector2D_index w 0 \<noteq> NaN \<and> Vector2D_index w 1 \<noteq> NaN)"
  by (cases v; cases w)
    (simp add: Vector2D_copy_def Vector2D_assign_eq Vector2D_equal_iff ieee_ne_def)

theorem copy_equal_spec_witness:
  "Vector2D_copy (Vector2D (Num 0) (Num 0)) (Vector2D (Num 3) PlusInf) = Vector2D (Num 3) PlusInf \<and>
   Vector2D_equal ieee_ne (Vector2D_copy (Vector2D (Num 0) (Num 0)) (Vector2D (Num 3) PlusInf))
     (Vector2D (Num 3) PlusInf)"
proof -
  note c = copy_equal_spec [of "Vector2D (Num 0) (Num 0)" "Vector2D (Num 3) PlusInf" ieee_ne
      "Vector2D (Num 0) (Num 0)" "Vector2D (Num 3) PlusInf"]
  have "Vector2D_index (Vector2D (Num 3) PlusInf) 0 \<noteq> NaN"
    "Vector2D_index (Vector2D (Num 3) PlusInf) 1 \<noteq> NaN"
    by simp_all
  with c show ?thesis by blast
qed

theorem copy_equal_counterexample:
  "\<not> Vector2D_equal ieee_ne (Vector2D_copy (Vector2D (Num 0) (Num 0)) (Vector2D NaN (Num 1)))
       (Vector2D NaN (Num 1))"
  by (simp add: Vector2D_copy_def Vector2D_assign_def Vector2D_equal_def upt_2 ieee_ne_def)


end
